theory Spec2Isabelle
  imports Complex_Main "HOL-Library.Word"
begin

section \<open>The webviz visualization plugin (webviz.cpp)\<close>

text \<open>
  A shallow embedding of \<^verbatim>\<open>argos::CWebviz\<close> as defined in
  \<^verbatim>\<open>src/plugins/simulator/visualizations/webviz/webviz.cpp\<close>.
  The member functions become functions on a record of the object's fields.
  Everything the file only calls (the simulator, the space, the loop functions,
  the clocks, the web server, the loggers) is outside the file: its state is the
  type parameter \<open>'w\<close>, its operations are the fields of a record of
  functions, and each call that an observer can see is appended to a trace.
\<close>

subsection \<open>Data\<close>

datatype EExperimentState =
    EXPERIMENT_INITIALIZED
  | EXPERIMENT_PLAYING
  | EXPERIMENT_PAUSED
  | EXPERIMENT_FAST_FORWARDING

text \<open>
  The values of \<^verbatim>\<open>nlohmann::json\<close> that the file builds. An object is
  kept as the list of its members; the order of the members plays no role below.
\<close>

datatype json =
    JNull
  | JInt int
  | JReal real
  | JString string
  | JArray "json list"
  | JObject "(string \<times> json) list"

record CVector3 =
  GetX :: real
  GetY :: real
  GetZ :: real

datatype exception =
    CARGoSException string
  | runtime_error string

text \<open>
  A call either returns or throws; both leave the object in some state, which
  is kept so that what a throwing call did to the object can be stated.
\<close>

datatype 'a outcome =
    Returned 'a
  | Thrown exception 'a

fun is_thrown :: "'a outcome \<Rightarrow> bool" where
  "is_thrown (Thrown e s) = True"
| "is_thrown (Returned s) = False"

fun state_of :: "'a outcome \<Rightarrow> 'a" where
  "state_of (Thrown e s) = s"
| "state_of (Returned s) = s"

text \<open>What the object does to its surroundings, in the order it does it.\<close>

datatype effect =
    EmitEvent string EExperimentState
  | Broadcast json
  | LOG string
  | LOGERR string
  | NewWebServer "16 word" "16 word"
  | Call_PreStep
  | Call_UpdateSpace
  | Call_PostStep
  | Call_PostExperiment
  | Call_Reset
  | TimerStart
  | TimerStop
  | SleepFor int
  | Concurrent effect

text \<open>
  The collaborators that webviz.cpp calls and does not define. \<open>'w\<close> is the
  state of the world outside the object (simulator, space, wall clock, timer),
  \<open>'ent\<close> the type of the entities of the space.
  \<open>GetSimulationClockTickMillis\<close> stands for the whole expression
  \<^verbatim>\<open>(long int)(CPhysicsEngine::GetSimulationClockTick() * 1000.0f)\<close>,
  \<open>GenerateJSON\<close> for \<^verbatim>\<open>CallEntityOperation<CWebvizOperationGenerateJSON, ...>\<close>,
  \<open>NowMillis\<close> for the system clock read in milliseconds since the epoch,
  \<open>Elapsed\<close> for \<^verbatim>\<open>m_cTimer.Elapsed()\<close> (the two readings of the timer
  at the end of a pass are taken to agree) and \<open>ShowMillis\<close> for the
  way a number of milliseconds is printed to a log stream.
\<close>

record ('w, 'ent) collaborators =
  IsExperimentFinished :: "'w \<Rightarrow> bool"
  UpdateSpace :: "'w \<Rightarrow> 'w"
  Simulator_Reset :: "'w \<Rightarrow> 'w"
  PreStep :: "'w \<Rightarrow> 'w"
  PostStep :: "'w \<Rightarrow> 'w"
  PostExperiment :: "'w \<Rightarrow> 'w"
  GetSimulationClockTickMillis :: "'w \<Rightarrow> int"
  GetRootEntityVector :: "'w \<Rightarrow> 'ent list"
  GenerateJSON :: "'ent \<Rightarrow> json"
  GetTypeDescription :: "'ent \<Rightarrow> string"
  GetArenaSize :: "'w \<Rightarrow> CVector3"
  GetArenaCenter :: "'w \<Rightarrow> CVector3"
  GetSimulationClock :: "'w \<Rightarrow> nat"
  NowMillis :: "'w \<Rightarrow> int"
  Elapsed :: "'w \<Rightarrow> int"
  ShowMillis :: "int \<Rightarrow> string"
  EExperimentStateToStr :: "EExperimentState \<Rightarrow> string"

text \<open>
  The fields of the object that the member functions read and write, the world
  outside (\<^verbatim>\<open>m_cSimulator\<close>, \<^verbatim>\<open>m_cSpace\<close>, \<^verbatim>\<open>m_cTimer\<close>) and the trace.
  \<^verbatim>\<open>m_unDrawFrameEvery\<close> is read from the configuration with a
  \<^verbatim>\<open>UInt16\<close> default, so it is a 16-bit unsigned integer.
\<close>

record 'w CWebviz =
  m_eExperimentState :: EExperimentState
  m_bFastForwarding :: bool
  m_cSimulatorTickMillis :: int
  m_unDrawFrameEvery :: "16 word"
  world :: 'w
  trace :: "effect list"

text \<open>
  The constructor sets the state and the flag; the tick length and the frame
  count are not initialised by it, so their first values are parameters.
\<close>

definition CWebviz_new :: "int \<Rightarrow> 16 word \<Rightarrow> 'w \<Rightarrow> 'w CWebviz" where
  "CWebviz_new tick0 frames0 w =
     \<lparr> m_eExperimentState = EXPERIMENT_INITIALIZED,
       m_bFastForwarding = False,
       m_cSimulatorTickMillis = tick0,
       m_unDrawFrameEvery = frames0,
       world = w,
       trace = [] \<rparr>"

definition emit :: "effect \<Rightarrow> 'w CWebviz \<Rightarrow> 'w CWebviz" where
  "emit e s = s\<lparr> trace := trace s @ [e] \<rparr>"

text \<open>A call of a collaborator that changes the world: the change and its record.\<close>

definition call :: "('w \<Rightarrow> 'w) \<Rightarrow> effect \<Rightarrow> 'w CWebviz \<Rightarrow> 'w CWebviz" where
  "call f e s = emit e (s\<lparr> world := f (world s) \<rparr>)"

subsection \<open>Init\<close>

text \<open>
  The three attributes of the configuration node, already parsed to
  \<^verbatim>\<open>unsigned short\<close>; \<open>None\<close> is an attribute that is absent, for which
  \<^verbatim>\<open>GetNodeAttributeOrDefault\<close> gives the default. Of what Init does after
  the check, the frame count and the creation of the web server are kept; the
  flushing of the logs and the two log streams play no role below.
\<close>

record TConfigurationNode =
  port :: "16 word option"
  broadcast_frequency :: "16 word option"
  ff_draw_frames_every :: "16 word option"

definition GetNodeAttributeOrDefault :: "'a option \<Rightarrow> 'a \<Rightarrow> 'a" where
  "GetNodeAttributeOrDefault attr dflt = (case attr of None \<Rightarrow> dflt | Some v \<Rightarrow> v)"

definition Init :: "TConfigurationNode \<Rightarrow> 'w CWebviz \<Rightarrow> 'w CWebviz outcome" where
  "Init t_tree s =
     (let unPort = GetNodeAttributeOrDefault (port t_tree) (3000 :: 16 word);
          unBroadcastFrequency =
            GetNodeAttributeOrDefault (broadcast_frequency t_tree) (10 :: 16 word)
      in if unBroadcastFrequency < 1 \<or> 10 < unBroadcastFrequency
         then Thrown (CARGoSException
                ''Broadcast frequency set in configuration is out of range [1,1000]'') s
         else Returned
           (emit (NewWebServer unPort unBroadcastFrequency)
              (s\<lparr> m_unDrawFrameEvery :=
                    GetNodeAttributeOrDefault (ff_draw_frames_every t_tree) (2 :: 16 word) \<rparr>)))"

subsection \<open>BroadcastExperimentState\<close>

text \<open>
  The three operations of \<^verbatim>\<open>nlohmann::json\<close> that the function uses.
  \<^verbatim>\<open>j[k]\<close> on a null value makes it an object, and reading a member that
  is absent gives null; \<^verbatim>\<open>push_back\<close> on a null value makes it an array.
  On values of other kinds the library throws; the function below never gets
  there, since its value starts as null and only these operations touch it.
\<close>

fun assign :: "string \<Rightarrow> json \<Rightarrow> (string \<times> json) list \<Rightarrow> (string \<times> json) list" where
  "assign k v [] = [(k, v)]"
| "assign k v ((k', v') # kvs) =
     (if k' = k then (k, v) # kvs else (k', v') # assign k v kvs)"

fun at_key :: "string \<Rightarrow> json \<Rightarrow> json" where
  "at_key k (JObject kvs) = (case map_of kvs k of None \<Rightarrow> JNull | Some v \<Rightarrow> v)"
| "at_key k j = JNull"

fun set_key :: "string \<Rightarrow> json \<Rightarrow> json \<Rightarrow> json" where
  "set_key k v JNull = JObject [(k, v)]"
| "set_key k v (JObject kvs) = JObject (assign k v kvs)"
| "set_key k v j = j"

fun push_back :: "json \<Rightarrow> json \<Rightarrow> json" where
  "push_back v JNull = JArray [v]"
| "push_back v (JArray vs) = JArray (vs @ [v])"
| "push_back v j = j"

text \<open>\<^verbatim>\<open>j[k1][k2]...[kn] = v\<close>\<close>

fun set_path :: "string list \<Rightarrow> json \<Rightarrow> json \<Rightarrow> json" where
  "set_path [] v j = v"
| "set_path (k # ks) v j = set_key k (set_path ks v (at_key k j)) j"

text \<open>\<^verbatim>\<open>j.contains(k)\<close>: is \<open>k\<close> a member of the object?\<close>

fun contains :: "string \<Rightarrow> json \<Rightarrow> bool" where
  "contains k (JObject kvs) = (map_of kvs k \<noteq> None)"
| "contains k j = False"

text \<open>
  The loop over the entities of the space: an entity whose conversion is not
  null is appended to the member "entities", any other one is reported on
  LOGERR. The pair is the value built so far and the trace.
\<close>

fun entities_loop ::
  "('w, 'ent) collaborators \<Rightarrow> 'ent list \<Rightarrow> json \<times> effect list \<Rightarrow> json \<times> effect list" where
  "entities_loop C [] (cStateJson, tr) = (cStateJson, tr)"
| "entities_loop C (itEntities # rest) (cStateJson, tr) =
     (let cEntityJSON = GenerateJSON C itEntities
      in if cEntityJSON \<noteq> JNull
         then entities_loop C rest
                (set_key ''entities'' (push_back cEntityJSON (at_key ''entities'' cStateJson))
                   cStateJson, tr)
         else entities_loop C rest
                (cStateJson,
                 tr @ [LOGERR ''[ERROR] Entity cannot be converted:'',
                       LOGERR (GetTypeDescription C itEntities)]))"

definition BroadcastExperimentState ::
  "('w, 'ent) collaborators \<Rightarrow> 'w CWebviz \<Rightarrow> 'w CWebviz" where
  "BroadcastExperimentState C s =
     (let (j0, tr) = entities_loop C (GetRootEntityVector C (world s)) (JNull, trace s);
          cArenaSize = GetArenaSize C (world s);
          j1 = set_path [''arena'', ''size'', ''x''] (JReal (GetX cArenaSize)) j0;
          j2 = set_path [''arena'', ''size'', ''y''] (JReal (GetY cArenaSize)) j1;
          j3 = set_path [''arena'', ''size'', ''z''] (JReal (GetZ cArenaSize)) j2;
          cArenaCenter = GetArenaCenter C (world s);
          j4 = set_path [''arena'', ''center'', ''x''] (JReal (GetX cArenaCenter)) j3;
          j5 = set_path [''arena'', ''center'', ''y''] (JReal (GetY cArenaCenter)) j4;
          j6 = set_path [''arena'', ''center'', ''z''] (JReal (GetZ cArenaCenter)) j5;
          j7 = set_key ''timestamp'' (JInt (NowMillis C (world s))) j6;
          j8 = set_key ''state''
                 (JString (EExperimentStateToStr C (m_eExperimentState s))) j7;
          j9 = set_key ''steps'' (JInt (int (GetSimulationClock C (world s)))) j8
      in s\<lparr> trace := tr @ [Broadcast j9] \<rparr>)"

subsection \<open>The control operations\<close>

definition PlayExperiment :: "('w, 'ent) collaborators \<Rightarrow> 'w CWebviz \<Rightarrow> 'w CWebviz" where
  "PlayExperiment C s =
     (if m_eExperimentState s \<noteq> EXPERIMENT_INITIALIZED \<and>
         m_eExperimentState s \<noteq> EXPERIMENT_PAUSED
      then emit (LOG (''[WARNING] CWebviz::PlayExperiment() called in wrong state: '' @
                      EExperimentStateToStr C (m_eExperimentState s) @ ''\<newline>'')) s
      else
        let s1 = s\<lparr> m_bFastForwarding := False \<rparr>;
            s2 = s1\<lparr> m_cSimulatorTickMillis := GetSimulationClockTickMillis C (world s1) \<rparr>;
            s3 = s2\<lparr> m_eExperimentState := EXPERIMENT_PLAYING \<rparr>;
            s4 = emit (EmitEvent ''Experiment playing'' (m_eExperimentState s3)) s3;
            s5 = emit (LOG ''[INFO] Experiment playing'') s4
        in emit TimerStart s5)"

definition FastForwardExperiment ::
  "('w, 'ent) collaborators \<Rightarrow> 'w CWebviz \<Rightarrow> 'w CWebviz" where
  "FastForwardExperiment C s =
     (let s0 = (if m_eExperimentState s \<noteq> EXPERIMENT_INITIALIZED \<and>
                   m_eExperimentState s \<noteq> EXPERIMENT_PAUSED
                then emit (LOG (''[WARNING] CWebviz::FastForwardExperiment() called in wrong state:'' @
                                EExperimentStateToStr C (m_eExperimentState s) @
                                ''\<newline>Running the experiment in FastForward mode\<newline>'')) s
                else s);
          s1 = s0\<lparr> m_bFastForwarding := True \<rparr>;
          s2 = s1\<lparr> m_cSimulatorTickMillis := GetSimulationClockTickMillis C (world s1) \<rparr>;
          s3 = s2\<lparr> m_eExperimentState := EXPERIMENT_FAST_FORWARDING \<rparr>;
          s4 = emit (EmitEvent ''Experiment fast-forwarding'' (m_eExperimentState s3)) s3;
          s5 = emit (LOG ''[INFO] Experiment fast-forwarding'') s4
      in emit TimerStart s5)"

definition PauseExperiment ::
  "('w, 'ent) collaborators \<Rightarrow> 'w CWebviz \<Rightarrow> 'w CWebviz outcome" where
  "PauseExperiment C s =
     (if m_eExperimentState s \<noteq> EXPERIMENT_PLAYING \<and>
         m_eExperimentState s \<noteq> EXPERIMENT_FAST_FORWARDING
      then Thrown
             (runtime_error (''Cannot pause the experiment, current state : '' @
                             EExperimentStateToStr C (m_eExperimentState s)))
             (emit (LOG (''[WARNING] CWebviz::PauseExperiment() called in wrong state: '' @
                         EExperimentStateToStr C (m_eExperimentState s))) s)
      else
        let s1 = s\<lparr> m_bFastForwarding := False \<rparr>;
            s2 = s1\<lparr> m_eExperimentState := EXPERIMENT_PAUSED \<rparr>;
            s3 = emit (EmitEvent ''Experiment paused'' (m_eExperimentState s2)) s2
        in Returned (emit (LOG ''[INFO] Experiment paused'') s3))"

definition ResetExperiment :: "('w, 'ent) collaborators \<Rightarrow> 'w CWebviz \<Rightarrow> 'w CWebviz" where
  "ResetExperiment C s =
     (let s1 = call (Simulator_Reset C) Call_Reset s;
          s2 = s1\<lparr> m_bFastForwarding := False \<rparr>;
          s3 = s2\<lparr> m_eExperimentState := EXPERIMENT_INITIALIZED \<rparr>;
          s4 = emit (EmitEvent ''Experiment reset'' (m_eExperimentState s3)) s3;
          s5 = BroadcastExperimentState C s4
      in emit (LOG ''[INFO] Experiment reset'') s5)"

definition StepExperiment :: "('w, 'ent) collaborators \<Rightarrow> 'w CWebviz \<Rightarrow> 'w CWebviz" where
  "StepExperiment C s =
     (if m_eExperimentState s = EXPERIMENT_PLAYING \<or>
         m_eExperimentState s = EXPERIMENT_FAST_FORWARDING
      then
        let s1 = emit (LOG (''[WARNING] CWebviz::StepExperiment() called in wrong state: '' @
                            EExperimentStateToStr C (m_eExperimentState s) @
                            '' pausing the experiment to run a step'')) s
        in s1\<lparr> m_eExperimentState := EXPERIMENT_PAUSED \<rparr>
      else
        let s1 = s\<lparr> m_bFastForwarding := False \<rparr>;
            s2 = (if \<not> IsExperimentFinished C (world s1)
                  then
                    let a = call (PreStep C) Call_PreStep s1;
                        b = call (UpdateSpace C) Call_UpdateSpace a;
                        c = call (PostStep C) Call_PostStep b
                    in emit (EmitEvent ''Experiment step done'' (m_eExperimentState c)) c
                  else
                    let a = call (PostExperiment C) Call_PostExperiment s1;
                        b = ResetExperiment C a;
                        c = emit (EmitEvent ''Experiment done'' (m_eExperimentState b)) b
                    in emit (LOG ''[INFO] Experiment done\<newline>'') c)
        in BroadcastExperimentState C s2)"

subsection \<open>The simulation thread\<close>

text \<open>
  The control operations are called from the web server's thread while the
  simulation thread runs its loop. The five operations, as a request that
  thread can make, and what each does to the object:
\<close>

datatype request = Play | Pause | FastForward | Step | Reset

fun handle :: "('w, 'ent) collaborators \<Rightarrow> request \<Rightarrow> 'w CWebviz \<Rightarrow> 'w CWebviz outcome" where
  "handle C Play s = Returned (PlayExperiment C s)"
| "handle C Pause s = PauseExperiment C s"
| "handle C FastForward s = Returned (FastForwardExperiment C s)"
| "handle C Step s = Returned (StepExperiment C s)"
| "handle C Reset s = Returned (ResetExperiment C s)"

text \<open>
  A request served by the other thread while the simulation thread is inside a
  pass of its loop (between two steps of the inner loop, between two statements
  of completion handling): the object is changed as the operation changes it,
  and what the operation does to the surroundings is marked as done by the
  other thread. \<open>None\<close> is no request.
\<close>

fun meanwhile :: "('w, 'ent) collaborators \<Rightarrow> request option \<Rightarrow> 'w CWebviz \<Rightarrow> 'w CWebviz" where
  "meanwhile C None s = s"
| "meanwhile C (Some r) s =
     (let s' = state_of (handle C r s)
      in s'\<lparr> trace := trace s @ map Concurrent (drop (length (trace s)) (trace s')) \<rparr>)"

definition running :: "'w CWebviz \<Rightarrow> bool" where
  "running s = (m_eExperimentState s = EXPERIMENT_PLAYING \<or>
                m_eExperimentState s = EXPERIMENT_FAST_FORWARDING)"

text \<open>
  The inner loop \<^verbatim>\<open>while (unFFStepCounter > 0 && !IsExperimentFinished() && (PLAYING ||
  FAST_FORWARDING))\<close>. The list gives, for each pass of the body, the request (if
  any) that the other thread serves after that pass's \<^verbatim>\<open>UpdateSpace\<close> and
  before the condition is read again; the empty list is a loop left alone.
\<close>

fun steps_loop ::
  "('w, 'ent) collaborators \<Rightarrow> request option list \<Rightarrow> nat \<Rightarrow> 'w CWebviz \<Rightarrow> 'w CWebviz" where
  "steps_loop C rs 0 s = s"
| "steps_loop C rs (Suc unFFStepCounter) s =
     (if \<not> IsExperimentFinished C (world s) \<and> running s
      then steps_loop C (tl rs) unFFStepCounter
             (meanwhile C (case rs of [] \<Rightarrow> None | r # _ \<Rightarrow> r)
                (call (UpdateSpace C) Call_UpdateSpace s))
      else s)"

text \<open>
  The other thread also serves requests while the simulation thread is in its
  completion handling, which reads \<^verbatim>\<open>m_eExperimentState\<close> again after it has
  written it and holds no lock. A list of requests gives, for each statement of
  the simulation thread in turn, the request (if any) served just before it;
  beyond its end no request is served.
\<close>

definition served :: "request option list \<Rightarrow> nat \<Rightarrow> request option" where
  "served qs i = (if i < length qs then qs ! i else None)"

text \<open>
  \<^verbatim>\<open>ResetExperiment\<close> as the simulation thread runs it, statement by statement,
  with the requests \<open>qs\<close> served before its six statements. The event is emitted
  with the state that is found when the statement runs.
\<close>

definition ResetExperiment_with ::
  "('w, 'ent) collaborators \<Rightarrow> request option list \<Rightarrow> 'w CWebviz \<Rightarrow> 'w CWebviz" where
  "ResetExperiment_with C qs s =
     (let s1 = call (Simulator_Reset C) Call_Reset (meanwhile C (served qs 0) s);
          s2 = (meanwhile C (served qs 1) s1)\<lparr> m_bFastForwarding := False \<rparr>;
          s3 = (meanwhile C (served qs 2) s2)\<lparr> m_eExperimentState := EXPERIMENT_INITIALIZED \<rparr>;
          m4 = meanwhile C (served qs 3) s3;
          s4 = emit (EmitEvent ''Experiment reset'' (m_eExperimentState m4)) m4;
          s5 = BroadcastExperimentState C (meanwhile C (served qs 4) s4)
      in emit (LOG ''[INFO] Experiment reset'') (meanwhile C (served qs 5) s5))"

datatype flow = Continue | Return

text \<open>
  One pass of the body of \<^verbatim>\<open>while (true)\<close>, and whether the function returns after
  it. \<open>rs\<close> are the requests served inside the inner loop. \<open>qs\<close> are the requests
  served during completion handling: the first before the post-experiment
  hook, the next six before the statements of \<^verbatim>\<open>ResetExperiment\<close>, the eighth
  before the event "Experiment done" is emitted, the ninth before the log line.
\<close>

definition loop_body ::
  "('w, 'ent) collaborators \<Rightarrow> request option list \<Rightarrow> request option list \<Rightarrow>
   'w CWebviz \<Rightarrow> flow \<times> 'w CWebviz" where
  "loop_body C rs qs s =
     (if m_eExperimentState s = EXPERIMENT_PLAYING \<or>
         m_eExperimentState s = EXPERIMENT_FAST_FORWARDING
      then
        if \<not> IsExperimentFinished C (world s)
        then
          let s1 = call (PreStep C) Call_PreStep s;
              unFFStepCounter =
                (if m_bFastForwarding s1 then unat (m_unDrawFrameEvery s1) else 1);
              s2 = steps_loop C rs unFFStepCounter s1;
              s3 = BroadcastExperimentState C s2;
              s4 = call (PostStep C) Call_PostStep s3
          in if IsExperimentFinished C (world s4)
             then
               let s5 = call (PostExperiment C) Call_PostExperiment
                          (meanwhile C (served qs 0) s4);
                   s6 = ResetExperiment_with C (drop 1 qs) s5;
                   m7 = meanwhile C (served qs 7) s6;
                   s7 = emit (EmitEvent ''Experiment done'' (m_eExperimentState m7)) m7
               in (Return, emit (LOG ''[INFO] Experiment done\<newline>'')
                             (meanwhile C (served qs 8) s7))
             else
               let s5 = emit TimerStop s4;
                   s6 = (if Elapsed C (world s5) < m_cSimulatorTickMillis s5
                         then emit (SleepFor (m_cSimulatorTickMillis s5 - Elapsed C (world s5))) s5
                         else emit (LOG (''[WARNING] Clock tick took '' @
                                         ShowMillis C (Elapsed C (world s5)) @
                                         '' milli-secs, more than the expected '' @
                                         ShowMillis C (m_cSimulatorTickMillis s5) @
                                         '' milli-secs. Recovering in next cycle.\<newline>'')) s5)
               in (Continue, emit TimerStart s6)
        else
          let s1 = call (PostExperiment C) Call_PostExperiment
                     (meanwhile C (served qs 0) s);
              s2 = ResetExperiment_with C (drop 1 qs) s1;
              m3 = meanwhile C (served qs 7) s2;
              s3 = emit (EmitEvent ''Experiment done'' (m_eExperimentState m3)) m3
          in (Continue, emit (LOG ''[INFO] Experiment done\<newline>'')
                          (meanwhile C (served qs 8) s3))
      else
        (Continue, emit (SleepFor 250) (BroadcastExperimentState C s)))"

text \<open>
  \<^verbatim>\<open>SimulationThreadFunction\<close>: the loop runs until a pass returns, which need
  not happen. The list holds, for each pass still to be made, the requests that
  are served inside it (in its inner loop, in its completion handling);
  \<open>None\<close> is a thread that is still in its loop when the list is used up,
  \<open>Some s\<close> a thread that has returned in state \<open>s\<close>.
\<close>

fun SimulationThreadFunction ::
  "('w, 'ent) collaborators \<Rightarrow> (request option list \<times> request option list) list \<Rightarrow>
   'w CWebviz \<Rightarrow> 'w CWebviz option" where
  "SimulationThreadFunction C [] s = None"
| "SimulationThreadFunction C ((rs, qs) # rss) s =
     (case loop_body C rs qs s of
        (Return, s') \<Rightarrow> Some s'
      | (Continue, s') \<Rightarrow> SimulationThreadFunction C rss s')"

text \<open>
  A run of the whole object: requests served between two passes of the loop,
  and passes of the loop with the requests served inside them, in any order.
  The flag says whether the simulation
  thread is still in its loop; once it has returned, no pass is made any more.
\<close>

datatype action = Serve request | Pass "request option list" "request option list"

fun act :: "('w, 'ent) collaborators \<Rightarrow> action \<Rightarrow> bool \<times> 'w CWebviz \<Rightarrow> bool \<times> 'w CWebviz" where
  "act C (Serve r) (alive, s) = (alive, state_of (handle C r s))"
| "act C (Pass rs qs) (alive, s) =
     (if alive
      then (case loop_body C rs qs s of
              (Return, s') \<Rightarrow> (False, s')
            | (Continue, s') \<Rightarrow> (True, s'))
      else (alive, s))"

definition run ::
  "('w, 'ent) collaborators \<Rightarrow> action list \<Rightarrow> bool \<times> 'w CWebviz \<Rightarrow> bool \<times> 'w CWebviz" where
  "run C as x = foldl (\<lambda>x a. act C a x) x as"

section \<open>Notions used to state the properties\<close>

text \<open>
  What the loop over the entities logs, and which conversions it keeps: an
  entity whose conversion is null is reported in two lines and left out.
\<close>

definition entity_errors :: "('w, 'ent) collaborators \<Rightarrow> 'ent list \<Rightarrow> effect list" where
  "entity_errors C es =
     concat (map (\<lambda>e. if GenerateJSON C e = JNull
                       then [LOGERR ''[ERROR] Entity cannot be converted:'',
                             LOGERR (GetTypeDescription C e)]
                       else []) es)"

definition converted :: "('w, 'ent) collaborators \<Rightarrow> 'ent list \<Rightarrow> json list" where
  "converted C es = filter (\<lambda>j. j \<noteq> JNull) (map (GenerateJSON C) es)"

text \<open>The value that \<open>BroadcastExperimentState\<close> sends, written out member by member.\<close>

definition snapshot_of :: "('w, 'ent) collaborators \<Rightarrow> EExperimentState \<Rightarrow> 'w \<Rightarrow> json" where
  "snapshot_of C st w =
     JObject
       ((if converted C (GetRootEntityVector C w) = [] then []
         else [(''entities'', JArray (converted C (GetRootEntityVector C w)))]) @
        [(''arena'',
          JObject
            [(''size'',
              JObject [(''x'', JReal (GetX (GetArenaSize C w))),
                       (''y'', JReal (GetY (GetArenaSize C w))),
                       (''z'', JReal (GetZ (GetArenaSize C w)))]),
             (''center'',
              JObject [(''x'', JReal (GetX (GetArenaCenter C w))),
                       (''y'', JReal (GetY (GetArenaCenter C w))),
                       (''z'', JReal (GetZ (GetArenaCenter C w)))])]),
         (''timestamp'', JInt (NowMillis C w)),
         (''state'', JString (EExperimentStateToStr C st)),
         (''steps'', JInt (int (GetSimulationClock C w)))])"


fun is_LOGERR :: "effect \<Rightarrow> bool" where
  "is_LOGERR (LOGERR m) = True"
| "is_LOGERR e = False"

text \<open>
  The first part of a pass of the loop that steps: the pre-step hook, the inner
  loop, the broadcast and the post-step hook.
\<close>

definition stepped ::
  "('w, 'ent) collaborators \<Rightarrow> request option list \<Rightarrow> 'w CWebviz \<Rightarrow> 'w CWebviz" where
  "stepped C rs s =
     (let s1 = call (PreStep C) Call_PreStep s;
          s2 = steps_loop C rs
                 (if m_bFastForwarding s1 then unat (m_unDrawFrameEvery s1) else 1) s1;
          s3 = BroadcastExperimentState C s2
      in call (PostStep C) Call_PostStep s3)"

text \<open>
  Completion handling as the specification words it: invoke the post-experiment
  hook, perform Reset, emit a "done" event carrying the resulting state, log
  completion; with the requests \<open>qs\<close> served by the other thread before the
  nine statements this takes.
\<close>

definition completion_handling ::
  "('w, 'ent) collaborators \<Rightarrow> request option list \<Rightarrow> 'w CWebviz \<Rightarrow> 'w CWebviz" where
  "completion_handling C qs s =
     (let a = call (PostExperiment C) Call_PostExperiment (meanwhile C (served qs 0) s);
          b = ResetExperiment_with C (drop 1 qs) a;
          m = meanwhile C (served qs 7) b;
          c = emit (EmitEvent ''Experiment done'' (m_eExperimentState m)) m
      in emit (LOG ''[INFO] Experiment done\<newline>'') (meanwhile C (served qs 8) c))"

text \<open>What a call or a pass has added to the trace.\<close>

definition added :: "'w CWebviz \<Rightarrow> 'w CWebviz \<Rightarrow> effect list" where
  "added s s' = drop (length (trace s)) (trace s')"

text \<open>
  A small simulator to run the definitions on: the world is the number of steps
  made, the experiment is finished after \<open>limit\<close> steps, the hooks do
  nothing, and an entity is a flag saying whether it has a conversion.
\<close>

definition demo :: "nat \<Rightarrow> bool list \<Rightarrow> (nat, bool) collaborators" where
  "demo limit ents =
     \<lparr> IsExperimentFinished = (\<lambda>w. limit \<le> w),
       UpdateSpace = Suc,
       Simulator_Reset = (\<lambda>w. 0),
       PreStep = (\<lambda>w. w),
       PostStep = (\<lambda>w. w),
       PostExperiment = (\<lambda>w. w),
       GetSimulationClockTickMillis = (\<lambda>w. 100),
       GetRootEntityVector = (\<lambda>w. ents),
       GenerateJSON = (\<lambda>e. if e then JString ''box'' else JNull),
       GetTypeDescription = (\<lambda>e. ''light''),
       GetArenaSize = (\<lambda>w. \<lparr> GetX = 4, GetY = 4, GetZ = 1 \<rparr>),
       GetArenaCenter = (\<lambda>w. \<lparr> GetX = 0, GetY = 0, GetZ = 0 \<rparr>),
       GetSimulationClock = (\<lambda>w. w),
       NowMillis = (\<lambda>w. 0),
       Elapsed = (\<lambda>w. 0),
       ShowMillis = (\<lambda>n. ''0''),
       EExperimentStateToStr = (\<lambda>e. case e of
           EXPERIMENT_INITIALIZED \<Rightarrow> ''EXPERIMENT_INITIALIZED''
         | EXPERIMENT_PLAYING \<Rightarrow> ''EXPERIMENT_PLAYING''
         | EXPERIMENT_PAUSED \<Rightarrow> ''EXPERIMENT_PAUSED''
         | EXPERIMENT_FAST_FORWARDING \<Rightarrow> ''EXPERIMENT_FAST_FORWARDING'') \<rparr>"

text \<open>An effect of the other thread, recorded inside a pass of the loop.\<close>

fun is_Concurrent :: "effect \<Rightarrow> bool" where
  "is_Concurrent (Concurrent e) = True"
| "is_Concurrent e = False"

text \<open>The effects of the thread that the trace belongs to.\<close>

definition own :: "effect list \<Rightarrow> effect list" where
  "own tr = filter (\<lambda>e. \<not> is_Concurrent e) tr"

text \<open>
  How flag and state go together in every state the object reaches: the flag
  is set in state FAST_FORWARDING and clear in state PLAYING.
\<close>

definition consistent :: "'w CWebviz \<Rightarrow> bool" where
  "consistent s =
     ((m_eExperimentState s = EXPERIMENT_FAST_FORWARDING \<longrightarrow> m_bFastForwarding s) \<and>
      (m_eExperimentState s = EXPERIMENT_PLAYING \<longrightarrow> \<not> m_bFastForwarding s))"



definition paced :: "('w, 'ent) collaborators \<Rightarrow> 'w CWebviz \<Rightarrow> 'w CWebviz" where
  "paced C s =
     (let s5 = emit TimerStop s;
          s6 = (if Elapsed C (world s5) < m_cSimulatorTickMillis s5
                then emit (SleepFor (m_cSimulatorTickMillis s5 - Elapsed C (world s5))) s5
                else emit (LOG (''[WARNING] Clock tick took '' @
                                ShowMillis C (Elapsed C (world s5)) @
                                '' milli-secs, more than the expected '' @
                                ShowMillis C (m_cSimulatorTickMillis s5) @
                                '' milli-secs. Recovering in next cycle.\<newline>'')) s5)
      in emit TimerStart s6)"

text \<open>
  An object configured with three frames per pass in fast-forward mode, and the
  same object after a request to fast-forward.
\<close>

definition demo_config :: TConfigurationNode where
  "demo_config = \<lparr> port = None, broadcast_frequency = None, ff_draw_frames_every = Some 3 \<rparr>"

definition demo_start :: "nat CWebviz" where
  "demo_start = state_of (Init demo_config (CWebviz_new 0 0 0))"

definition demo_ff :: "nat \<Rightarrow> nat CWebviz" where
  "demo_ff limit = FastForwardExperiment (demo limit []) demo_start"

section \<open>Properties\<close>

subsection \<open>Configuration\<close>

text \<open>
  C8. Init accepts a broadcast frequency exactly when it lies in [1, 10]: it
  throws for every other 16-bit value, before the web server is created and
  without changing the object, and otherwise returns. In particular 0 and 11
  are refused, 1 and 10 are accepted.
\<close>

theorem Init_broadcast_frequency_range:
  "is_thrown (Init (t\<lparr> broadcast_frequency := Some f \<rparr>) s) = (\<not> (1 \<le> unat f \<and> unat f \<le> 10))
   \<and> (is_thrown (Init (t\<lparr> broadcast_frequency := Some f \<rparr>) s)
        \<longrightarrow> state_of (Init (t\<lparr> broadcast_frequency := Some f \<rparr>) s) = s)
   \<and> is_thrown (Init (t\<lparr> broadcast_frequency := Some 0 \<rparr>) s)
   \<and> is_thrown (Init (t\<lparr> broadcast_frequency := Some 11 \<rparr>) s)
   \<and> \<not> is_thrown (Init (t\<lparr> broadcast_frequency := Some 1 \<rparr>) s)
   \<and> \<not> is_thrown (Init (t\<lparr> broadcast_frequency := Some 10 \<rparr>) s)"
proof -
  have lo: "(f < 1) = (unat f < 1)"
    by (simp add: word_less_nat_alt)
  have hi: "(10 < f) = (10 < unat f)"
    by (simp add: word_less_nat_alt)
  have "is_thrown (Init (t\<lparr> broadcast_frequency := Some f \<rparr>) s) = (f < 1 \<or> 10 < f)"
    by (simp add: Init_def GetNodeAttributeOrDefault_def Let_def)
  then have range: "is_thrown (Init (t\<lparr> broadcast_frequency := Some f \<rparr>) s)
      = (\<not> (1 \<le> unat f \<and> unat f \<le> 10))"
    using lo hi by auto
  have unchanged: "is_thrown (Init (t\<lparr> broadcast_frequency := Some f \<rparr>) s)
      \<longrightarrow> state_of (Init (t\<lparr> broadcast_frequency := Some f \<rparr>) s) = s"
    by (simp add: Init_def GetNodeAttributeOrDefault_def Let_def)
  have b0: "is_thrown (Init (t\<lparr> broadcast_frequency := Some 0 \<rparr>) s)"
    by (simp add: Init_def GetNodeAttributeOrDefault_def Let_def)
  have b11: "is_thrown (Init (t\<lparr> broadcast_frequency := Some 11 \<rparr>) s)"
    by (simp add: Init_def GetNodeAttributeOrDefault_def Let_def)
  have b1: "\<not> is_thrown (Init (t\<lparr> broadcast_frequency := Some 1 \<rparr>) s)"
    by (simp add: Init_def GetNodeAttributeOrDefault_def Let_def)
  have b10: "\<not> is_thrown (Init (t\<lparr> broadcast_frequency := Some 10 \<rparr>) s)"
    by (simp add: Init_def GetNodeAttributeOrDefault_def Let_def)
  from range unchanged b0 b11 b1 b10 show ?thesis by blast
qed

theorem Init_broadcast_frequency_range_witness:
  "is_thrown (Init \<lparr> port = None, broadcast_frequency = Some 11, ff_draw_frames_every = None \<rparr>
                (CWebviz_new 0 0 (0::nat)))
   \<and> state_of (Init \<lparr> port = None, broadcast_frequency = Some 11, ff_draw_frames_every = None \<rparr>
                  (CWebviz_new 0 0 (0::nat))) = CWebviz_new 0 0 0"
  using Init_broadcast_frequency_range
          [where t = "\<lparr> port = None, broadcast_frequency = None, ff_draw_frames_every = None \<rparr>"
             and f = 11 and s = "CWebviz_new 0 0 (0::nat)"]
  by simp

subsection \<open>The snapshot\<close>

lemma entities_loop_trace:
  "snd (entities_loop C es (j, tr)) = tr @ entity_errors C es"
  by (induction es arbitrary: j tr) (simp_all add: entity_errors_def Let_def)

lemma entities_loop_none:
  "converted C es = [] \<Longrightarrow> fst (entities_loop C es (j, tr)) = j"
  by (induction es arbitrary: j tr) (auto simp add: Let_def converted_def split: if_splits)

lemma entities_loop_array:
  "fst (entities_loop C es (JObject [(''entities'', JArray vs)], tr))
     = JObject [(''entities'', JArray (vs @ converted C es))]"
  by (induction es arbitrary: vs tr) (simp_all add: Let_def converted_def)

lemma entities_loop_some:
  "converted C es \<noteq> [] \<Longrightarrow>
   fst (entities_loop C es (JNull, tr)) = JObject [(''entities'', JArray (converted C es))]"
proof (induction es arbitrary: tr)
  case Nil
  then show ?case by (simp add: converted_def)
next
  case (Cons e es)
  show ?case
  proof (cases "GenerateJSON C e = JNull")
    case True
    with Cons show ?thesis by (simp add: converted_def Let_def)
  next
    case False
    then show ?thesis
      using entities_loop_array[of C es "[GenerateJSON C e]" tr]
      by (simp add: converted_def Let_def)
  qed
qed


lemma BroadcastExperimentState_eq:
  "BroadcastExperimentState C s =
     s\<lparr> trace := trace s @ entity_errors C (GetRootEntityVector C (world s)) @
                   [Broadcast (snapshot_of C (m_eExperimentState s) (world s))] \<rparr>"
proof (cases "converted C (GetRootEntityVector C (world s)) = []")
  case True
  have j0: "entities_loop C (GetRootEntityVector C (world s)) (JNull, trace s)
      = (JNull, trace s @ entity_errors C (GetRootEntityVector C (world s)))"
    using entities_loop_none[OF True, of JNull "trace s"]
          entities_loop_trace[of C "GetRootEntityVector C (world s)" JNull "trace s"]
    by (metis prod.collapse)
  show ?thesis
    unfolding BroadcastExperimentState_def j0 snapshot_of_def
    by (simp add: True Let_def)
next
  case False
  have j0: "entities_loop C (GetRootEntityVector C (world s)) (JNull, trace s)
      = (JObject [(''entities'', JArray (converted C (GetRootEntityVector C (world s))))],
         trace s @ entity_errors C (GetRootEntityVector C (world s)))"
    using entities_loop_some[OF False, of "trace s"]
          entities_loop_trace[of C "GetRootEntityVector C (world s)" JNull "trace s"]
    by (metis prod.collapse)
  show ?thesis
    unfolding BroadcastExperimentState_def j0 snapshot_of_def
    by (simp add: False Let_def)
qed


text \<open>
  C10. BroadcastExperimentState always ends with one broadcast, whatever the
  conversions of the entities give: an entity whose conversion is null adds two
  lines to LOGERR and nothing to the snapshot. When no entity has a conversion
  (there may be none at all) the snapshot has no member "entities"; otherwise
  that member is the array of the conversions that are not null. The members
  arena.size, arena.center, timestamp, state and steps are there in both cases.
\<close>

theorem snapshot_without_entities:
  "\<exists>j. trace (BroadcastExperimentState C s) =
         trace s @ entity_errors C (GetRootEntityVector C (world s)) @ [Broadcast j]
     \<and> ((\<forall>e \<in> set (GetRootEntityVector C (world s)). GenerateJSON C e = JNull)
            \<longrightarrow> \<not> contains ''entities'' j)
     \<and> ((\<exists>e \<in> set (GetRootEntityVector C (world s)). GenerateJSON C e \<noteq> JNull)
            \<longrightarrow> at_key ''entities'' j = JArray (converted C (GetRootEntityVector C (world s))))
     \<and> contains ''size'' (at_key ''arena'' j)
     \<and> contains ''center'' (at_key ''arena'' j)
     \<and> contains ''timestamp'' j
     \<and> contains ''state'' j
     \<and> contains ''steps'' j"
proof -
  let ?es = "GetRootEntityVector C (world s)"
  let ?j = "snapshot_of C (m_eExperimentState s) (world s)"
  have tr: "trace (BroadcastExperimentState C s) = trace s @ entity_errors C ?es @ [Broadcast ?j]"
    by (simp add: BroadcastExperimentState_eq)
  have none: "(\<forall>e \<in> set ?es. GenerateJSON C e = JNull) \<longrightarrow> \<not> contains ''entities'' ?j"
  proof
    assume "\<forall>e \<in> set ?es. GenerateJSON C e = JNull"
    then have "converted C ?es = []"
      by (simp add: converted_def filter_empty_conv)
    then show "\<not> contains ''entities'' ?j"
      by (simp add: snapshot_of_def)
  qed
  have some: "(\<exists>e \<in> set ?es. GenerateJSON C e \<noteq> JNull)
      \<longrightarrow> at_key ''entities'' ?j = JArray (converted C ?es)"
  proof
    assume "\<exists>e \<in> set ?es. GenerateJSON C e \<noteq> JNull"
    then have "converted C ?es \<noteq> []"
      by (auto simp add: converted_def filter_empty_conv)
    then show "at_key ''entities'' ?j = JArray (converted C ?es)"
      by (simp add: snapshot_of_def)
  qed
  have k1: "contains ''size'' (at_key ''arena'' ?j)" by (simp add: snapshot_of_def)
  have k2: "contains ''center'' (at_key ''arena'' ?j)" by (simp add: snapshot_of_def)
  have k3: "contains ''timestamp'' ?j" by (simp add: snapshot_of_def)
  have k4: "contains ''state'' ?j" by (simp add: snapshot_of_def)
  have k5: "contains ''steps'' ?j" by (simp add: snapshot_of_def)
  from tr none some k1 k2 k3 k4 k5 show ?thesis by blast
qed

theorem snapshot_without_entities_witness:
  "GetRootEntityVector (demo 3 [False]) (world (CWebviz_new 0 2 (0::nat))) = [False]
   \<and> GenerateJSON (demo 3 [False]) False = JNull
   \<and> (\<exists>j. trace (BroadcastExperimentState (demo 3 [False]) (CWebviz_new 0 2 0)) =
            [LOGERR ''[ERROR] Entity cannot be converted:'', LOGERR ''light'', Broadcast j]
          \<and> \<not> contains ''entities'' j \<and> contains ''steps'' j)
   \<and> GetRootEntityVector (demo 3 [False, True]) (world (CWebviz_new 0 2 (0::nat))) = [False, True]
   \<and> GenerateJSON (demo 3 [False, True]) True = JString ''box''
   \<and> (\<exists>j. trace (BroadcastExperimentState (demo 3 [False, True]) (CWebviz_new 0 2 0)) =
            [LOGERR ''[ERROR] Entity cannot be converted:'', LOGERR ''light'', Broadcast j]
          \<and> at_key ''entities'' j = JArray [JString ''box''])"
  using snapshot_without_entities [of "demo 3 [False]" "CWebviz_new 0 2 0"]
        snapshot_without_entities [of "demo 3 [False, True]" "CWebviz_new 0 2 0"]
  by (auto simp add: CWebviz_new_def demo_def entity_errors_def converted_def)

subsection \<open>The control operations\<close>

text \<open>
  C6. Play called in state INITIALIZED or PAUSED clears the fast-forward flag,
  takes the tick length anew from the physics engine's clock tick, sets the
  state to PLAYING and emits the event "Experiment playing" (then logs and starts
  the timer). Called in state PLAYING or FAST_FORWARDING it logs a warning and
  returns: no field of the object changes and no event is emitted.
\<close>

theorem PlayExperiment_spec:
  "(m_eExperimentState s = EXPERIMENT_INITIALIZED \<or> m_eExperimentState s = EXPERIMENT_PAUSED \<longrightarrow>
      PlayExperiment C s =
        s\<lparr> m_bFastForwarding := False,
           m_cSimulatorTickMillis := GetSimulationClockTickMillis C (world s),
           m_eExperimentState := EXPERIMENT_PLAYING,
           trace := trace s @ [EmitEvent ''Experiment playing'' EXPERIMENT_PLAYING,
                               LOG ''[INFO] Experiment playing'', TimerStart] \<rparr>)
   \<and> (m_eExperimentState s = EXPERIMENT_PLAYING \<or> m_eExperimentState s = EXPERIMENT_FAST_FORWARDING \<longrightarrow>
      PlayExperiment C s =
        s\<lparr> trace := trace s @
             [LOG (''[WARNING] CWebviz::PlayExperiment() called in wrong state: '' @
                   EExperimentStateToStr C (m_eExperimentState s) @ ''\<newline>'')] \<rparr>)"
  by (auto simp add: PlayExperiment_def emit_def Let_def)

theorem PlayExperiment_spec_witness:
  "m_eExperimentState (PlayExperiment (demo 3 []) (CWebviz_new 0 2 0)) = EXPERIMENT_PLAYING
   \<and> m_cSimulatorTickMillis (PlayExperiment (demo 3 []) (CWebviz_new 0 2 0)) = 100
   \<and> trace (PlayExperiment (demo 3 []) (PlayExperiment (demo 3 []) (CWebviz_new 0 2 0)))
      = [EmitEvent ''Experiment playing'' EXPERIMENT_PLAYING,
         LOG ''[INFO] Experiment playing'', TimerStart,
         LOG ''[WARNING] CWebviz::PlayExperiment() called in wrong state: EXPERIMENT_PLAYING\<newline>'']"
  using PlayExperiment_spec [of "CWebviz_new 0 2 0" "demo 3 []"]
        PlayExperiment_spec [of "PlayExperiment (demo 3 []) (CWebviz_new 0 2 0)" "demo 3 []"]
  by (simp add: CWebviz_new_def demo_def)

text \<open>
  C7. FastForward, whatever the state it is called in, ends in state
  FAST_FORWARDING with the fast-forward flag set and the tick length taken anew
  from the physics engine's clock tick, and emits the event "Experiment
  fast-forwarding". Called in a state other than INITIALIZED and PAUSED it logs a
  warning first and goes on all the same; it has no branch that returns early or
  throws. Play called in such a state leaves the state as it is.
\<close>

theorem FastForwardExperiment_spec:
  "m_eExperimentState (FastForwardExperiment C s) = EXPERIMENT_FAST_FORWARDING
   \<and> m_bFastForwarding (FastForwardExperiment C s)
   \<and> m_cSimulatorTickMillis (FastForwardExperiment C s) = GetSimulationClockTickMillis C (world s)
   \<and> trace (FastForwardExperiment C s) =
        trace s @
        (if m_eExperimentState s \<noteq> EXPERIMENT_INITIALIZED \<and>
            m_eExperimentState s \<noteq> EXPERIMENT_PAUSED
         then [LOG (''[WARNING] CWebviz::FastForwardExperiment() called in wrong state:'' @
                    EExperimentStateToStr C (m_eExperimentState s) @
                    ''\<newline>Running the experiment in FastForward mode\<newline>'')]
         else []) @
        [EmitEvent ''Experiment fast-forwarding'' EXPERIMENT_FAST_FORWARDING,
         LOG ''[INFO] Experiment fast-forwarding'', TimerStart]
   \<and> handle C FastForward s = Returned (FastForwardExperiment C s)
   \<and> (m_eExperimentState s \<noteq> EXPERIMENT_INITIALIZED \<and>
       m_eExperimentState s \<noteq> EXPERIMENT_PAUSED \<longrightarrow>
         m_eExperimentState (PlayExperiment C s) = m_eExperimentState s)"
  by (simp add: FastForwardExperiment_def PlayExperiment_def emit_def Let_def)

theorem FastForwardExperiment_spec_witness:
  "m_eExperimentState (PlayExperiment (demo 3 []) (CWebviz_new 0 2 0)) \<noteq> EXPERIMENT_INITIALIZED
   \<and> m_eExperimentState (PlayExperiment (demo 3 []) (CWebviz_new 0 2 0)) \<noteq> EXPERIMENT_PAUSED
   \<and> m_eExperimentState
        (FastForwardExperiment (demo 3 []) (PlayExperiment (demo 3 []) (CWebviz_new 0 2 0)))
      = EXPERIMENT_FAST_FORWARDING
   \<and> m_eExperimentState
        (PlayExperiment (demo 3 []) (PlayExperiment (demo 3 []) (CWebviz_new 0 2 0)))
      = EXPERIMENT_PLAYING
   \<and> added (PlayExperiment (demo 3 []) (CWebviz_new 0 2 0))
        (FastForwardExperiment (demo 3 []) (PlayExperiment (demo 3 []) (CWebviz_new 0 2 0)))
      = [LOG (''[WARNING] CWebviz::FastForwardExperiment() called in wrong state:'' @
              ''EXPERIMENT_PLAYING'' @ ''\<newline>Running the experiment in FastForward mode\<newline>''),
         EmitEvent ''Experiment fast-forwarding'' EXPERIMENT_FAST_FORWARDING,
         LOG ''[INFO] Experiment fast-forwarding'', TimerStart]"
  using FastForwardExperiment_spec [of "demo 3 []" "PlayExperiment (demo 3 []) (CWebviz_new 0 2 0)"]
  by (simp add: added_def PlayExperiment_def emit_def CWebviz_new_def demo_def)

text \<open>
  C4. Pause throws exactly when the state is neither PLAYING nor
  FAST_FORWARDING. When it throws, the object is as before except for one
  warning line on LOG: state, flag and tick length are unchanged and no event is
  emitted. Otherwise it clears the fast-forward flag, sets the state to PAUSED
  and emits the event "Experiment paused". Of the five control operations, only
  Pause can throw.
\<close>

theorem PauseExperiment_spec:
  "is_thrown (PauseExperiment C s) =
     (m_eExperimentState s \<noteq> EXPERIMENT_PLAYING \<and>
      m_eExperimentState s \<noteq> EXPERIMENT_FAST_FORWARDING)
   \<and> (is_thrown (PauseExperiment C s) \<longrightarrow>
         state_of (PauseExperiment C s) =
           s\<lparr> trace := trace s @
                [LOG (''[WARNING] CWebviz::PauseExperiment() called in wrong state: '' @
                      EExperimentStateToStr C (m_eExperimentState s))] \<rparr>)
   \<and> (\<not> is_thrown (PauseExperiment C s) \<longrightarrow>
         state_of (PauseExperiment C s) =
           s\<lparr> m_bFastForwarding := False,
              m_eExperimentState := EXPERIMENT_PAUSED,
              trace := trace s @ [EmitEvent ''Experiment paused'' EXPERIMENT_PAUSED,
                                  LOG ''[INFO] Experiment paused''] \<rparr>)
   \<and> (is_thrown (handle C r s) \<longrightarrow> r = Pause)"
  by (cases r) (auto simp add: PauseExperiment_def emit_def Let_def)

theorem PauseExperiment_spec_witness:
  "is_thrown (PauseExperiment (demo 3 []) (CWebviz_new 0 2 0))
   \<and> is_thrown (handle (demo 3 []) Pause (CWebviz_new 0 2 0))
   \<and> state_of (PauseExperiment (demo 3 []) (CWebviz_new 0 2 0)) =
        (CWebviz_new 0 2 0)
          \<lparr> trace := [LOG ''[WARNING] CWebviz::PauseExperiment() called in wrong state: EXPERIMENT_INITIALIZED''] \<rparr>
   \<and> \<not> is_thrown (PauseExperiment (demo 3 []) (FastForwardExperiment (demo 3 []) (CWebviz_new 0 2 0)))
   \<and> m_eExperimentState
        (state_of (PauseExperiment (demo 3 []) (FastForwardExperiment (demo 3 []) (CWebviz_new 0 2 0))))
      = EXPERIMENT_PAUSED
   \<and> \<not> m_bFastForwarding
        (state_of (PauseExperiment (demo 3 []) (FastForwardExperiment (demo 3 []) (CWebviz_new 0 2 0))))"
  using PauseExperiment_spec [of "demo 3 []" "CWebviz_new 0 2 0" Pause]
        PauseExperiment_spec [of "demo 3 []" "FastForwardExperiment (demo 3 []) (CWebviz_new 0 2 0)" Pause]
  by (simp add: FastForwardExperiment_def emit_def CWebviz_new_def demo_def)

text \<open>
  C3. Step called in state PLAYING or FAST_FORWARDING sets the state to PAUSED,
  logs a warning and returns: the simulator is not touched, so no step is made.
  Step called in state PAUSED or INITIALIZED with the experiment not finished
  makes one cycle of pre-step hook, simulator step and post-step hook, emits
  the event "Experiment step done" once and then broadcasts one snapshot (the
  broadcast may log entities that have no conversion before it sends).
\<close>

theorem StepExperiment_spec:
  "(m_eExperimentState s = EXPERIMENT_PLAYING \<or>
    m_eExperimentState s = EXPERIMENT_FAST_FORWARDING \<longrightarrow>
      StepExperiment C s =
        s\<lparr> m_eExperimentState := EXPERIMENT_PAUSED,
           trace := trace s @
             [LOG (''[WARNING] CWebviz::StepExperiment() called in wrong state: '' @
                   EExperimentStateToStr C (m_eExperimentState s) @
                   '' pausing the experiment to run a step'')] \<rparr>)
   \<and> ((m_eExperimentState s = EXPERIMENT_PAUSED \<or>
        m_eExperimentState s = EXPERIMENT_INITIALIZED) \<and>
       \<not> IsExperimentFinished C (world s) \<longrightarrow>
      world (StepExperiment C s) = PostStep C (UpdateSpace C (PreStep C (world s)))
      \<and> m_eExperimentState (StepExperiment C s) = m_eExperimentState s
      \<and> trace (StepExperiment C s) =
            trace s @
            [Call_PreStep, Call_UpdateSpace, Call_PostStep,
             EmitEvent ''Experiment step done'' (m_eExperimentState s)] @
            entity_errors C (GetRootEntityVector C (world (StepExperiment C s))) @
            [Broadcast (snapshot_of C (m_eExperimentState s) (world (StepExperiment C s)))]
      \<and> list_all is_LOGERR (entity_errors C (GetRootEntityVector C (world (StepExperiment C s)))))"
proof -
  have errs: "list_all is_LOGERR (entity_errors C es)" for es :: "'b list"
    by (induction es) (simp_all add: entity_errors_def)
  show ?thesis
    using errs
    by (auto simp add: StepExperiment_def BroadcastExperimentState_eq emit_def call_def Let_def)
qed

theorem StepExperiment_spec_witness:
  "m_eExperimentState (FastForwardExperiment (demo 3 []) (CWebviz_new 0 2 0))
     = EXPERIMENT_FAST_FORWARDING
   \<and> m_eExperimentState
        (StepExperiment (demo 3 []) (FastForwardExperiment (demo 3 []) (CWebviz_new 0 2 0)))
      = EXPERIMENT_PAUSED
   \<and> world (StepExperiment (demo 3 []) (FastForwardExperiment (demo 3 []) (CWebviz_new 0 2 0))) = 0
   \<and> m_eExperimentState (CWebviz_new 0 2 (0::nat)) = EXPERIMENT_INITIALIZED
   \<and> \<not> IsExperimentFinished (demo 3 []) (world (CWebviz_new 0 2 (0::nat)))
   \<and> world (StepExperiment (demo 3 []) (CWebviz_new 0 2 0)) = 1
   \<and> (\<exists>j. trace (StepExperiment (demo 3 []) (CWebviz_new 0 2 0)) =
            [Call_PreStep, Call_UpdateSpace, Call_PostStep,
             EmitEvent ''Experiment step done'' EXPERIMENT_INITIALIZED, Broadcast j])"
proof -
  have a: "m_eExperimentState (FastForwardExperiment (demo 3 []) (CWebviz_new 0 2 0))
      = EXPERIMENT_FAST_FORWARDING"
    by (simp add: FastForwardExperiment_def emit_def Let_def)
  have b: "m_eExperimentState (CWebviz_new 0 2 (0::nat)) = EXPERIMENT_INITIALIZED"
    by (simp add: CWebviz_new_def)
  have c: "\<not> IsExperimentFinished (demo 3 []) (world (CWebviz_new 0 2 (0::nat)))"
    by (simp add: CWebviz_new_def demo_def)
  have d: "world (FastForwardExperiment (demo 3 []) (CWebviz_new 0 2 (0::nat))) = 0"
    by (simp add: FastForwardExperiment_def emit_def Let_def CWebviz_new_def)
  have e: "trace (CWebviz_new 0 2 (0::nat)) = []"
    by (simp add: CWebviz_new_def)
  have f: "PostStep (demo 3 []) (UpdateSpace (demo 3 []) (PreStep (demo 3 []) 0)) = 1"
    by (simp add: demo_def)
  have g: "world (CWebviz_new 0 2 (0::nat)) = 0"
    by (simp add: CWebviz_new_def)
  from StepExperiment_spec [of "FastForwardExperiment (demo 3 []) (CWebviz_new 0 2 0)" "demo 3 []"]
       StepExperiment_spec [of "CWebviz_new 0 2 0" "demo 3 []"]
       a b c d e f g
  show ?thesis
    by (simp add: entity_errors_def demo_def)
qed

text \<open>
  C1 says that every control operation keeps the flag equal to "the state is
  FAST_FORWARDING". Step does not: called right after FastForward it sets the
  state to PAUSED and returns before the statement that clears the flag, so
  the flag stays set in state PAUSED.
\<close>

theorem StepExperiment_keeps_flag:
  "m_eExperimentState (StepExperiment C (FastForwardExperiment C s)) = EXPERIMENT_PAUSED
   \<and> m_bFastForwarding (StepExperiment C (FastForwardExperiment C s))
   \<and> m_bFastForwarding (StepExperiment C (FastForwardExperiment C s))
       \<noteq> (m_eExperimentState (StepExperiment C (FastForwardExperiment C s))
            = EXPERIMENT_FAST_FORWARDING)"
  by (simp add: StepExperiment_def FastForwardExperiment_def emit_def Let_def)

subsection \<open>What the operations keep and what they add to the trace\<close>

lemma emit_simps:
  "m_eExperimentState (emit e s) = m_eExperimentState s"
  "m_bFastForwarding (emit e s) = m_bFastForwarding s"
  "m_cSimulatorTickMillis (emit e s) = m_cSimulatorTickMillis s"
  "m_unDrawFrameEvery (emit e s) = m_unDrawFrameEvery s"
  "world (emit e s) = world s"
  "trace (emit e s) = trace s @ [e]"
  by (simp_all add: emit_def)

lemma call_simps:
  "m_eExperimentState (call f e s) = m_eExperimentState s"
  "m_bFastForwarding (call f e s) = m_bFastForwarding s"
  "m_cSimulatorTickMillis (call f e s) = m_cSimulatorTickMillis s"
  "m_unDrawFrameEvery (call f e s) = m_unDrawFrameEvery s"
  "world (call f e s) = f (world s)"
  "trace (call f e s) = trace s @ [e]"
  by (simp_all add: call_def emit_def)

lemma Broadcast_simps:
  "m_eExperimentState (BroadcastExperimentState C s) = m_eExperimentState s"
  "m_bFastForwarding (BroadcastExperimentState C s) = m_bFastForwarding s"
  "m_cSimulatorTickMillis (BroadcastExperimentState C s) = m_cSimulatorTickMillis s"
  "m_unDrawFrameEvery (BroadcastExperimentState C s) = m_unDrawFrameEvery s"
  "world (BroadcastExperimentState C s) = world s"
  "trace (BroadcastExperimentState C s) =
     trace s @ entity_errors C (GetRootEntityVector C (world s)) @
     [Broadcast (snapshot_of C (m_eExperimentState s) (world s))]"
  by (simp_all add: BroadcastExperimentState_eq)

lemma Reset_simps:
  "m_eExperimentState (ResetExperiment C s) = EXPERIMENT_INITIALIZED"
  "m_bFastForwarding (ResetExperiment C s) = False"
  "m_cSimulatorTickMillis (ResetExperiment C s) = m_cSimulatorTickMillis s"
  "m_unDrawFrameEvery (ResetExperiment C s) = m_unDrawFrameEvery s"
  "world (ResetExperiment C s) = Simulator_Reset C (world s)"
  "trace (ResetExperiment C s) =
     trace s @ [Call_Reset, EmitEvent ''Experiment reset'' EXPERIMENT_INITIALIZED] @
     entity_errors C (GetRootEntityVector C (Simulator_Reset C (world s))) @
     [Broadcast (snapshot_of C EXPERIMENT_INITIALIZED (Simulator_Reset C (world s))),
      LOG ''[INFO] Experiment reset'']"
  by (simp_all add: ResetExperiment_def Let_def emit_simps call_simps Broadcast_simps)

lemma entity_errors_LOGERR: "list_all is_LOGERR (entity_errors C es)"
  by (induction es) (simp_all add: entity_errors_def)

lemma handle_frames:
  "m_unDrawFrameEvery (state_of (handle C r s)) = m_unDrawFrameEvery s"
  by (cases r)
     (simp_all add: PlayExperiment_def FastForwardExperiment_def PauseExperiment_def
        StepExperiment_def Let_def emit_simps call_simps Broadcast_simps Reset_simps)

lemma handle_consistent:
  "consistent s \<Longrightarrow> consistent (state_of (handle C r s))"
  by (cases r)
     (auto simp add: consistent_def PlayExperiment_def FastForwardExperiment_def
        PauseExperiment_def StepExperiment_def Let_def emit_simps call_simps
        Broadcast_simps Reset_simps)

lemma meanwhile_simps:
  "m_unDrawFrameEvery (meanwhile C r s) = m_unDrawFrameEvery s"
  "consistent s \<Longrightarrow> consistent (meanwhile C r s)"
  "\<exists>chunk. trace (meanwhile C r s) = trace s @ chunk \<and> list_all is_Concurrent chunk"
proof -
  show "m_unDrawFrameEvery (meanwhile C r s) = m_unDrawFrameEvery s"
    by (cases r) (simp_all add: Let_def handle_frames)
  show "consistent s \<Longrightarrow> consistent (meanwhile C r s)"
    using handle_consistent[of s C]
    by (cases r) (simp_all add: Let_def consistent_def)
  show "\<exists>chunk. trace (meanwhile C r s) = trace s @ chunk \<and> list_all is_Concurrent chunk"
    by (cases r) (simp_all add: Let_def list_all_iff)
qed

lemma meanwhile_chunk:
  "\<exists>c. trace (meanwhile C q s) = trace s @ c \<and> own c = []"
proof -
  obtain c where c: "trace (meanwhile C q s) = trace s @ c" "list_all is_Concurrent c"
    using meanwhile_simps(3)[of C q s] by blast
  have "own c = []"
    using c(2) by (simp add: own_def filter_empty_conv list_all_iff)
  then show ?thesis using c(1) by blast
qed

lemma served_simps:
  "served [] i = None"
  "served (drop k qs) i = served qs (k + i)"
  by (auto simp add: served_def)

lemma own_simps:
  "own [] = []"
  "own (xs @ ys) = own xs @ own ys"
  "own (e # es) = (if is_Concurrent e then own es else e # own es)"
  by (simp_all add: own_def)

lemma own_entity_errors: "own (entity_errors C es) = entity_errors C es"
  by (induction es) (simp_all add: entity_errors_def own_def)




lemma steps_loop_numeral:
  "steps_loop C rs (numeral k) s =
     (if \<not> IsExperimentFinished C (world s) \<and> running s
      then steps_loop C (tl rs) (pred_numeral k)
             (meanwhile C (case rs of [] \<Rightarrow> None | r # _ \<Rightarrow> r)
                (call (UpdateSpace C) Call_UpdateSpace s))
      else s)"
  by (simp add: numeral_eq_Suc)






lemma added_eq: "trace s' = trace s @ chunk \<Longrightarrow> added s s' = chunk"
  by (simp add: added_def)






text \<open>
  ResetExperiment and completion handling with requests served between their
  statements: what they keep, and what the simulation thread itself adds to
  the trace.
\<close>

lemma ResetExperiment_with_Nil:
  "ResetExperiment_with C [] s = ResetExperiment C s"
  by (simp add: ResetExperiment_with_def ResetExperiment_def served_simps Let_def)



lemma ResetExperiment_with_chunk:
  "\<exists>c st errs j.
     trace (ResetExperiment_with C qs s) = trace s @ c
     \<and> own c = Call_Reset # EmitEvent ''Experiment reset'' st # errs @
                [Broadcast j, LOG ''[INFO] Experiment reset'']
     \<and> list_all is_LOGERR errs
     \<and> (served qs 3 = None \<longrightarrow> st = EXPERIMENT_INITIALIZED)
     \<and> (served qs 3 = None \<and> served qs 4 = None \<and> served qs 5 = None \<longrightarrow>
          m_eExperimentState (ResetExperiment_with C qs s) = EXPERIMENT_INITIALIZED)"
proof -
  define m0 where "m0 = meanwhile C (served qs 0) s"
  define s1 where "s1 = call (Simulator_Reset C) Call_Reset m0"
  define m1 where "m1 = meanwhile C (served qs 1) s1"
  define s2 where "s2 = m1\<lparr> m_bFastForwarding := False \<rparr>"
  define m2 where "m2 = meanwhile C (served qs 2) s2"
  define s3 where "s3 = m2\<lparr> m_eExperimentState := EXPERIMENT_INITIALIZED \<rparr>"
  define m3 where "m3 = meanwhile C (served qs 3) s3"
  define s4 where "s4 = emit (EmitEvent ''Experiment reset'' (m_eExperimentState m3)) m3"
  define m4 where "m4 = meanwhile C (served qs 4) s4"
  define s5 where "s5 = BroadcastExperimentState C m4"
  define m5 where "m5 = meanwhile C (served qs 5) s5"
  define errs where "errs = entity_errors C (GetRootEntityVector C (world m4))"
  define j where "j = snapshot_of C (m_eExperimentState m4) (world m4)"
  have R: "ResetExperiment_with C qs s = emit (LOG ''[INFO] Experiment reset'') m5"
    by (simp add: ResetExperiment_with_def Let_def m0_def s1_def m1_def s2_def m2_def
          s3_def m3_def s4_def m4_def s5_def m5_def)
  obtain c0 where c0: "trace m0 = trace s @ c0" "own c0 = []"
    unfolding m0_def using meanwhile_chunk by blast
  obtain c1 where c1: "trace m1 = trace s1 @ c1" "own c1 = []"
    unfolding m1_def using meanwhile_chunk by blast
  obtain c2 where c2: "trace m2 = trace s2 @ c2" "own c2 = []"
    unfolding m2_def using meanwhile_chunk by blast
  obtain c3 where c3: "trace m3 = trace s3 @ c3" "own c3 = []"
    unfolding m3_def using meanwhile_chunk by blast
  obtain c4 where c4: "trace m4 = trace s4 @ c4" "own c4 = []"
    unfolding m4_def using meanwhile_chunk by blast
  obtain c5 where c5: "trace m5 = trace s5 @ c5" "own c5 = []"
    unfolding m5_def using meanwhile_chunk by blast
  have t1: "trace s1 = trace s @ c0 @ [Call_Reset]"
    by (simp add: s1_def call_simps c0(1))
  have t2: "trace s2 = trace s @ c0 @ [Call_Reset] @ c1"
    by (simp add: s2_def c1(1) t1)
  have t3: "trace s3 = trace s @ c0 @ [Call_Reset] @ c1 @ c2"
    by (simp add: s3_def c2(1) t2)
  have t4: "trace s4 = trace s @ c0 @ [Call_Reset] @ c1 @ c2 @ c3 @
      [EmitEvent ''Experiment reset'' (m_eExperimentState m3)]"
    by (simp add: s4_def emit_simps c3(1) t3)
  have t5: "trace s5 = trace s @ c0 @ [Call_Reset] @ c1 @ c2 @ c3 @
      [EmitEvent ''Experiment reset'' (m_eExperimentState m3)] @ c4 @ errs @ [Broadcast j]"
    by (simp add: s5_def Broadcast_simps c4(1) t4 errs_def j_def)
  let ?c = "c0 @ [Call_Reset] @ c1 @ c2 @ c3 @
      [EmitEvent ''Experiment reset'' (m_eExperimentState m3)] @ c4 @ errs @ [Broadcast j] @
      c5 @ [LOG ''[INFO] Experiment reset'']"
  have t: "trace (ResetExperiment_with C qs s) = trace s @ ?c"
    by (simp add: R emit_simps c5(1) t5)
  have o: "own ?c = Call_Reset # EmitEvent ''Experiment reset'' (m_eExperimentState m3) #
      errs @ [Broadcast j, LOG ''[INFO] Experiment reset'']"
    by (simp add: own_simps c0(2) c1(2) c2(2) c3(2) c4(2) c5(2) errs_def own_entity_errors)
  have l: "list_all is_LOGERR errs"
    by (simp add: errs_def entity_errors_LOGERR)
  have st: "served qs 3 = None \<longrightarrow> m_eExperimentState m3 = EXPERIMENT_INITIALIZED"
    by (simp add: m3_def s3_def)
  have fin: "served qs 3 = None \<and> served qs 4 = None \<and> served qs 5 = None \<longrightarrow>
      m_eExperimentState (ResetExperiment_with C qs s) = EXPERIMENT_INITIALIZED"
    by (simp add: R emit_simps m5_def s5_def Broadcast_simps m4_def s4_def m3_def s3_def)
  show ?thesis
    by (rule exI[of _ ?c], rule exI[of _ "m_eExperimentState m3"], rule exI[of _ errs],
        rule exI[of _ j])
       (intro conjI t o l st fin)
qed

lemma completion_handling_Nil:
  "completion_handling C [] x =
     emit (LOG ''[INFO] Experiment done\<newline>'')
       (emit (EmitEvent ''Experiment done'' EXPERIMENT_INITIALIZED)
          (ResetExperiment C (call (PostExperiment C) Call_PostExperiment x)))"
  by (simp add: completion_handling_def served_simps ResetExperiment_with_Nil Let_def
        Reset_simps)



lemma completion_handling_chunk:
  "\<exists>c st1 st2 errs j.
     trace (completion_handling C qs x) = trace x @ c
     \<and> own c = [Call_PostExperiment, Call_Reset, EmitEvent ''Experiment reset'' st1] @ errs @
               [Broadcast j, LOG ''[INFO] Experiment reset'',
                EmitEvent ''Experiment done'' st2, LOG ''[INFO] Experiment done\<newline>'']
     \<and> list_all is_LOGERR errs
     \<and> (served qs 4 = None \<and> served qs 5 = None \<and> served qs 6 = None \<and>
         served qs 7 = None \<longrightarrow>
           st1 = EXPERIMENT_INITIALIZED \<and> st2 = EXPERIMENT_INITIALIZED)"
proof -
  define m0 where "m0 = meanwhile C (served qs 0) x"
  define a where "a = call (PostExperiment C) Call_PostExperiment m0"
  define b where "b = ResetExperiment_with C (drop 1 qs) a"
  define m where "m = meanwhile C (served qs 7) b"
  define c where "c = emit (EmitEvent ''Experiment done'' (m_eExperimentState m)) m"
  define m8 where "m8 = meanwhile C (served qs 8) c"
  have H: "completion_handling C qs x = emit (LOG ''[INFO] Experiment done\<newline>'') m8"
    by (simp add: completion_handling_def Let_def m0_def a_def b_def m_def c_def m8_def)
  obtain c0 where c0: "trace m0 = trace x @ c0" "own c0 = []"
    unfolding m0_def using meanwhile_chunk by blast
  have "\<exists>c st errs j.
     trace b = trace a @ c
     \<and> own c = Call_Reset # EmitEvent ''Experiment reset'' st # errs @
                [Broadcast j, LOG ''[INFO] Experiment reset'']
     \<and> list_all is_LOGERR errs
     \<and> (served (drop 1 qs) 3 = None \<longrightarrow> st = EXPERIMENT_INITIALIZED)
     \<and> (served (drop 1 qs) 3 = None \<and> served (drop 1 qs) 4 = None \<and>
         served (drop 1 qs) 5 = None \<longrightarrow> m_eExperimentState b = EXPERIMENT_INITIALIZED)"
    unfolding b_def by (rule ResetExperiment_with_chunk)
  then obtain cR st1 errs j where cR: "trace b = trace a @ cR"
      "own cR = Call_Reset # EmitEvent ''Experiment reset'' st1 # errs @
                [Broadcast j, LOG ''[INFO] Experiment reset'']"
      "list_all is_LOGERR errs"
      "served (drop 1 qs) 3 = None \<longrightarrow> st1 = EXPERIMENT_INITIALIZED"
      "served (drop 1 qs) 3 = None \<and> served (drop 1 qs) 4 = None \<and>
       served (drop 1 qs) 5 = None \<longrightarrow> m_eExperimentState b = EXPERIMENT_INITIALIZED"
    by (elim exE conjE) (rule that, assumption+)
  obtain c7 where c7: "trace m = trace b @ c7" "own c7 = []"
    unfolding m_def using meanwhile_chunk by blast
  obtain c8 where c8: "trace m8 = trace c @ c8" "own c8 = []"
    unfolding m8_def using meanwhile_chunk by blast
  let ?c = "c0 @ [Call_PostExperiment] @ cR @ c7 @
      [EmitEvent ''Experiment done'' (m_eExperimentState m)] @ c8 @
      [LOG ''[INFO] Experiment done\<newline>'']"
  have ta: "trace a = trace x @ c0 @ [Call_PostExperiment]"
    by (simp add: a_def call_simps c0(1))
  have tc: "trace c = trace x @ c0 @ [Call_PostExperiment] @ cR @ c7 @
      [EmitEvent ''Experiment done'' (m_eExperimentState m)]"
    by (simp add: c_def emit_simps c7(1) cR(1) ta)
  have t: "trace (completion_handling C qs x) = trace x @ ?c"
    by (simp add: H emit_simps c8(1) tc)
  have o: "own ?c = [Call_PostExperiment, Call_Reset, EmitEvent ''Experiment reset'' st1] @
      errs @ [Broadcast j, LOG ''[INFO] Experiment reset'',
              EmitEvent ''Experiment done'' (m_eExperimentState m),
              LOG ''[INFO] Experiment done\<newline>'']"
    by (simp add: own_simps c0(2) c7(2) c8(2) cR(2))
  have q: "served qs 4 = None \<and> served qs 5 = None \<and> served qs 6 = None \<and>
      served qs 7 = None \<longrightarrow>
        st1 = EXPERIMENT_INITIALIZED \<and> m_eExperimentState m = EXPERIMENT_INITIALIZED"
    using cR(4) cR(5) by (simp add: served_simps m_def)
  show ?thesis
    by (rule exI[of _ ?c], rule exI[of _ st1], rule exI[of _ "m_eExperimentState m"],
        rule exI[of _ errs], rule exI[of _ j])
       (intro conjI t o cR(3) q)
qed



text \<open>The four ways through a pass of the loop.\<close>

lemma loop_body_finished_after:
  "running s \<Longrightarrow> \<not> IsExperimentFinished C (world s) \<Longrightarrow>
   IsExperimentFinished C (world (stepped C rs s)) \<Longrightarrow>
   loop_body C rs qs s = (Return, completion_handling C qs (stepped C rs s))"
  by (simp add: loop_body_def running_def stepped_def completion_handling_def Let_def)

lemma loop_body_finished_before:
  "running s \<Longrightarrow> IsExperimentFinished C (world s) \<Longrightarrow>
   loop_body C rs qs s = (Continue, completion_handling C qs s)"
  by (simp add: loop_body_def running_def completion_handling_def Let_def)

lemma loop_body_not_finished:
  "running s \<Longrightarrow> \<not> IsExperimentFinished C (world s) \<Longrightarrow>
   \<not> IsExperimentFinished C (world (stepped C rs s)) \<Longrightarrow>
   loop_body C rs qs s = (Continue, paced C (stepped C rs s))"
  by (simp add: loop_body_def running_def stepped_def paced_def Let_def)

lemma loop_body_idle:
  "\<not> running s \<Longrightarrow>
   loop_body C rs qs s = (Continue, emit (SleepFor 250) (BroadcastExperimentState C s))"
  by (simp add: loop_body_def running_def)

lemma loop_body_cases:
  "loop_body C rs qs s =
     (if running s
      then if \<not> IsExperimentFinished C (world s)
           then if IsExperimentFinished C (world (stepped C rs s))
                then (Return, completion_handling C qs (stepped C rs s))
                else (Continue, paced C (stepped C rs s))
           else (Continue, completion_handling C qs s)
      else (Continue, emit (SleepFor 250) (BroadcastExperimentState C s)))"
  by (simp add: loop_body_finished_after loop_body_finished_before loop_body_not_finished
        loop_body_idle)











text \<open>The small simulator, run.\<close>

lemma demo_simps:
  "IsExperimentFinished (demo l es) w = (l \<le> w)"
  "UpdateSpace (demo l es) w = Suc w"
  "Simulator_Reset (demo l es) w = 0"
  "PreStep (demo l es) w = w"
  "PostStep (demo l es) w = w"
  "PostExperiment (demo l es) w = w"
  "GetSimulationClockTickMillis (demo l es) w = 100"
  "GetRootEntityVector (demo l es) w = es"
  "GenerateJSON (demo l es) e = (if e then JString ''box'' else JNull)"
  "GetTypeDescription (demo l es) e = ''light''"
  "Elapsed (demo l es) w = 0"
  "EExperimentStateToStr (demo l es) EXPERIMENT_INITIALIZED = ''EXPERIMENT_INITIALIZED''"
  "EExperimentStateToStr (demo l es) EXPERIMENT_PLAYING = ''EXPERIMENT_PLAYING''"
  "EExperimentStateToStr (demo l es) EXPERIMENT_PAUSED = ''EXPERIMENT_PAUSED''"
  "EExperimentStateToStr (demo l es) EXPERIMENT_FAST_FORWARDING = ''EXPERIMENT_FAST_FORWARDING''"
  by (simp_all add: demo_def)

lemma demo_start_eq:
  "demo_start = \<lparr> m_eExperimentState = EXPERIMENT_INITIALIZED, m_bFastForwarding = False,
       m_cSimulatorTickMillis = 0, m_unDrawFrameEvery = 3, world = 0,
       trace = [NewWebServer 3000 10] \<rparr>"
  by (simp add: demo_start_def demo_config_def Init_def GetNodeAttributeOrDefault_def
        CWebviz_new_def emit_def)

lemma demo_ff_eq:
  "demo_ff limit = \<lparr> m_eExperimentState = EXPERIMENT_FAST_FORWARDING, m_bFastForwarding = True,
       m_cSimulatorTickMillis = 100, m_unDrawFrameEvery = 3, world = 0,
       trace = [NewWebServer 3000 10,
                EmitEvent ''Experiment fast-forwarding'' EXPERIMENT_FAST_FORWARDING,
                LOG ''[INFO] Experiment fast-forwarding'', TimerStart] \<rparr>"
  by (simp add: demo_ff_def demo_start_eq FastForwardExperiment_def emit_def demo_def)

lemma demo_ff_facts:
  "Init demo_config (CWebviz_new 0 0 0) = Returned demo_start"
  "run (demo limit []) [Serve FastForward] (True, demo_start) = (True, demo_ff limit)"
  "m_eExperimentState (demo_ff limit) = EXPERIMENT_FAST_FORWARDING"
  "IsExperimentFinished (demo limit []) (world (demo_ff limit)) = (limit = 0)"
proof -
  show "Init demo_config (CWebviz_new 0 0 0) = Returned demo_start"
    by (simp add: demo_start_def demo_config_def Init_def GetNodeAttributeOrDefault_def)
  show "run (demo limit []) [Serve FastForward] (True, demo_start) = (True, demo_ff limit)"
    by (simp add: run_def demo_ff_def)
  show "m_eExperimentState (demo_ff limit) = EXPERIMENT_FAST_FORWARDING"
    by (simp add: demo_ff_eq)
  show "IsExperimentFinished (demo limit []) (world (demo_ff limit)) = (limit = 0)"
    by (simp add: demo_ff_eq demo_simps)
qed

lemma demo_stepped:
  "stepped (demo 2 []) [] (demo_ff 2) =
     \<lparr> m_eExperimentState = EXPERIMENT_FAST_FORWARDING, m_bFastForwarding = True,
       m_cSimulatorTickMillis = 100, m_unDrawFrameEvery = 3, world = 2,
       trace = [NewWebServer 3000 10,
                EmitEvent ''Experiment fast-forwarding'' EXPERIMENT_FAST_FORWARDING,
                LOG ''[INFO] Experiment fast-forwarding'', TimerStart,
                Call_PreStep, Call_UpdateSpace, Call_UpdateSpace,
                Broadcast (snapshot_of (demo 2 []) EXPERIMENT_FAST_FORWARDING 2),
                Call_PostStep] \<rparr>"
  by (simp add: stepped_def demo_ff_eq call_def emit_def demo_simps running_def
        steps_loop_numeral BroadcastExperimentState_eq entity_errors_def
        numeral_2_eq_2[symmetric])



subsection \<open>The two completion paths of the loop\<close>

text \<open>
  C2. A pass of the loop that finds the state PLAYING or FAST_FORWARDING and
  the experiment not finished, and finds it finished after pre-step hook, inner
  loop, broadcast and post-step hook, does the completion handling (the
  post-experiment hook, ResetExperiment, the event "Experiment done", the log
  line) and returns from the thread function: no further pass is made,
  whatever is still to come. A pass that finds the experiment finished at once
  does the same completion handling and goes on with the next pass. A pass
  returns in the first case only. All this holds whatever requests the other
  thread serves during the pass; with none served during completion handling,
  completion handling is the post-experiment hook, then ResetExperiment, then
  the event and the log line.
\<close>

theorem completion_paths:
  assumes "m_eExperimentState s = EXPERIMENT_PLAYING \<or>
           m_eExperimentState s = EXPERIMENT_FAST_FORWARDING"
  shows "(\<not> IsExperimentFinished C (world s) \<and>
          IsExperimentFinished C (world (stepped C rs s)) \<longrightarrow>
            loop_body C rs qs s = (Return, completion_handling C qs (stepped C rs s)) \<and>
            SimulationThreadFunction C ((rs, qs) # rss) s =
              Some (completion_handling C qs (stepped C rs s)))
     \<and> (IsExperimentFinished C (world s) \<longrightarrow>
            loop_body C rs qs s = (Continue, completion_handling C qs s) \<and>
            SimulationThreadFunction C ((rs, qs) # rss) s =
              SimulationThreadFunction C rss (completion_handling C qs s))
     \<and> (fst (loop_body C rs qs s) = Return) =
          (\<not> IsExperimentFinished C (world s) \<and>
           IsExperimentFinished C (world (stepped C rs s)))
     \<and> completion_handling C [] x =
          emit (LOG ''[INFO] Experiment done\<newline>'')
            (emit (EmitEvent ''Experiment done'' EXPERIMENT_INITIALIZED)
               (ResetExperiment C (call (PostExperiment C) Call_PostExperiment x)))
     \<and> (\<exists>st1 st2 errs j.
           own (added x (completion_handling C qs x)) =
             [Call_PostExperiment, Call_Reset, EmitEvent ''Experiment reset'' st1] @ errs @
             [Broadcast j, LOG ''[INFO] Experiment reset'',
              EmitEvent ''Experiment done'' st2, LOG ''[INFO] Experiment done\<newline>'']
           \<and> list_all is_LOGERR errs)"
proof -
  have run: "running s" using assms by (simp add: running_def)
  obtain c st1 st2 errs j where c: "trace (completion_handling C qs x) = trace x @ c"
      "own c = [Call_PostExperiment, Call_Reset, EmitEvent ''Experiment reset'' st1] @ errs @
               [Broadcast j, LOG ''[INFO] Experiment reset'',
                EmitEvent ''Experiment done'' st2, LOG ''[INFO] Experiment done\<newline>'']"
      "list_all is_LOGERR errs"
    using completion_handling_chunk[of C qs x] by blast
  have "added x (completion_handling C qs x) = c"
    using c(1) by (rule added_eq)
  then have own: "\<exists>st1 st2 errs j.
           own (added x (completion_handling C qs x)) =
             [Call_PostExperiment, Call_Reset, EmitEvent ''Experiment reset'' st1] @ errs @
             [Broadcast j, LOG ''[INFO] Experiment reset'',
              EmitEvent ''Experiment done'' st2, LOG ''[INFO] Experiment done\<newline>'']
           \<and> list_all is_LOGERR errs"
    using c(2) c(3) by blast
  have paths: "(\<not> IsExperimentFinished C (world s) \<and>
          IsExperimentFinished C (world (stepped C rs s)) \<longrightarrow>
            loop_body C rs qs s = (Return, completion_handling C qs (stepped C rs s)) \<and>
            SimulationThreadFunction C ((rs, qs) # rss) s =
              Some (completion_handling C qs (stepped C rs s)))
     \<and> (IsExperimentFinished C (world s) \<longrightarrow>
            loop_body C rs qs s = (Continue, completion_handling C qs s) \<and>
            SimulationThreadFunction C ((rs, qs) # rss) s =
              SimulationThreadFunction C rss (completion_handling C qs s))
     \<and> (fst (loop_body C rs qs s) = Return) =
          (\<not> IsExperimentFinished C (world s) \<and>
           IsExperimentFinished C (world (stepped C rs s)))"
    using run by (simp add: loop_body_cases)
  from paths completion_handling_Nil[of C x] own show ?thesis by blast
qed

theorem completion_paths_witness:
  "m_eExperimentState (demo_ff 2) = EXPERIMENT_FAST_FORWARDING
   \<and> \<not> IsExperimentFinished (demo 2 []) (world (demo_ff 2))
   \<and> IsExperimentFinished (demo 2 []) (world (stepped (demo 2 []) [] (demo_ff 2)))
   \<and> fst (loop_body (demo 2 []) [] [] (demo_ff 2)) = Return
   \<and> SimulationThreadFunction (demo 2 []) [([], []), ([], []), ([], [])] (demo_ff 2) =
        Some (completion_handling (demo 2 []) [] (stepped (demo 2 []) [] (demo_ff 2)))
   \<and> m_eExperimentState (demo_ff 0) = EXPERIMENT_FAST_FORWARDING
   \<and> IsExperimentFinished (demo 0 []) (world (demo_ff 0))
   \<and> loop_body (demo 0 []) [] [] (demo_ff 0) =
        (Continue, completion_handling (demo 0 []) [] (demo_ff 0))
   \<and> SimulationThreadFunction (demo 0 []) [([], [])] (demo_ff 0) = None"
proof -
  have a: "m_eExperimentState (demo_ff 2) = EXPERIMENT_PLAYING \<or>
           m_eExperimentState (demo_ff 2) = EXPERIMENT_FAST_FORWARDING"
    by (simp add: demo_ff_facts)
  have b: "\<not> IsExperimentFinished (demo 2 []) (world (demo_ff 2))"
    by (simp add: demo_ff_facts)
  have c: "IsExperimentFinished (demo 2 []) (world (stepped (demo 2 []) [] (demo_ff 2)))"
    by (simp add: demo_stepped demo_simps)
  have d: "m_eExperimentState (demo_ff 0) = EXPERIMENT_PLAYING \<or>
           m_eExperimentState (demo_ff 0) = EXPERIMENT_FAST_FORWARDING"
    by (simp add: demo_ff_facts)
  have e: "IsExperimentFinished (demo 0 []) (world (demo_ff 0))"
    by (simp add: demo_ff_facts)
  from completion_paths [OF a, of "demo 2 []" "[]" "[]" "[([], []), ([], [])]"]
       completion_paths [OF d, of "demo 0 []" "[]" "[]" "[]"] b c e
  show ?thesis
    by (simp add: demo_ff_facts(3))
qed

subsection \<open>A pass in fast-forward mode\<close>




subsection \<open>The event "Experiment done"\<close>








end
